theory Spec2Isabelle
  imports Main
begin

section \<open>Exceptions\<close>

text \<open>
  The exceptions that can occur inside \<open>DuckDuckGoSearcher.search\<close>, ordered as its
  handlers distinguish them: \<open>httpx.TimeoutException\<close> (a subclass of
  \<open>httpx.HTTPError\<close>), any other \<open>httpx.HTTPError\<close> with its message,
  Python's \<open>IndexError\<close> (raised by list indexing), any other \<open>Exception\<close>
  with its message, and \<open>asyncio.CancelledError\<close>, which derives from
  \<open>BaseException\<close> and not from \<open>Exception\<close>.
\<close>

datatype exn =
  TimeoutException | HTTPError string | IndexError | OtherException string | CancelledError

text \<open>What \<open>except Exception\<close> catches.\<close>

fun is_Exception :: "exn \<Rightarrow> bool" where
  "is_Exception CancelledError = False"
| "is_Exception e = True"

section \<open>RateLimiter\<close>

text \<open>
  Timestamps are \<open>datetime\<close> values, which have microsecond resolution: a timestamp
  is an integer number of microseconds, \<open>timedelta(minutes=1)\<close> is \<open>minute\<close>.
  The source computes the wait as a float number of seconds; the model keeps it in
  microseconds.
\<close>

record RateLimiter =
  requests_per_minute :: int
  requests :: "int list"

definition minute :: int where
  "minute = 60000000"

text \<open>
  \<open>acquire now self\<close>: \<open>now\<close> is the value of \<open>datetime.now()\<close> read on entry.
  The result is the updated limiter together with either the exception raised or the
  time slept (0 when the call does not sleep). The assignment of the pruned list
  happens before the index \<open>self.requests[0]\<close> is evaluated, so it survives an
  \<open>IndexError\<close>.
\<close>

definition acquire :: "int \<Rightarrow> RateLimiter \<Rightarrow> (exn + int) \<times> RateLimiter" where
  "acquire now self =
     (let self1 = self\<lparr>requests := filter (\<lambda>req. now - req < minute) (requests self)\<rparr>
      in if int (length (requests self1)) \<ge> requests_per_minute self1
         then (case requests self1 of
                 [] \<Rightarrow> (Inl IndexError, self1)
               | oldest # _ \<Rightarrow>
                   (let wait_time = minute - (now - oldest)
                    in (Inr (if wait_time > 0 then wait_time else 0),
                        self1\<lparr>requests := requests self1 @ [now]\<rparr>)))
         else (Inr 0, self1\<lparr>requests := requests self1 @ [now]\<rparr>))"

text \<open>
  A caller issuing one \<open>acquire\<close> after the other: the list gives the clock reading on
  entry of each call, the result the instants at which the calls returned
  (entry time plus time slept). A call that raises authorizes nothing.
\<close>

fun authorizations :: "RateLimiter \<Rightarrow> int list \<Rightarrow> int list" where
  "authorizations self [] = []"
| "authorizations self (now # nows) =
     (case acquire now self of
        (Inl e, self') \<Rightarrow> authorizations self' nows
      | (Inr slept, self') \<Rightarrow> (now + slept) # authorizations self' nows)"

text \<open>The calls are sequential: none is entered before the previous one has returned.\<close>

fun sequential :: "RateLimiter \<Rightarrow> int \<Rightarrow> int list \<Rightarrow> bool" where
  "sequential self t [] = True"
| "sequential self t (now # nows) =
     (t \<le> now \<and>
      (case acquire now self of
         (Inl e, self') \<Rightarrow> sequential self' now nows
       | (Inr slept, self') \<Rightarrow> sequential self' (now + slept) nows))"

text \<open>The number of authorizations in the trailing window \<open>(t - minute, t]\<close>.\<close>

definition authorized_in_window :: "int \<Rightarrow> int list \<Rightarrow> nat" where
  "authorized_in_window t auths = length (filter (\<lambda>a. t - minute < a \<and> a \<le> t) auths)"

section \<open>Strings\<close>

text \<open>
  A Python \<open>str\<close> is modelled by the bytes of its UTF-8 encoding. The operations the
  source applies to links (\<open>in\<close>, \<open>startswith\<close>, \<open>split\<close> with the ASCII
  separators \<open>uddg=\<close> and \<open>&\<close>) give the same result on the encoding as on the
  code points.
\<close>

fun startswith :: "string \<Rightarrow> string \<Rightarrow> bool" where
  "startswith s [] = True"
| "startswith [] (p # ps) = False"
| "startswith (c # cs) (p # ps) = (c = p \<and> startswith cs ps)"

text \<open>\<open>contains s sub\<close> is Python's \<open>sub in s\<close>.\<close>

fun contains :: "string \<Rightarrow> string \<Rightarrow> bool" where
  "contains [] sub = (sub = [])"
| "contains (c # cs) sub = (startswith (c # cs) sub \<or> contains cs sub)"

text \<open>
  \<open>split_str s sep\<close> is Python's \<open>s.split(sep)\<close> for a non-empty separator: the
  pieces between the occurrences of \<open>sep\<close>, found from the left without overlap.
  \<open>split_from sep cur s\<close> has collected \<open>cur\<close> of the current piece. (Python raises
  \<open>ValueError\<close> on an empty separator; the source passes the two literals only.)
\<close>

function split_from :: "string \<Rightarrow> string \<Rightarrow> string \<Rightarrow> string list" where
  "split_from sep cur [] = [cur]"
| "split_from sep cur (c # cs) =
     (if sep \<noteq> [] \<and> startswith (c # cs) sep
      then cur # split_from sep [] (drop (length sep) (c # cs))
      else split_from sep (cur @ [c]) cs)"
  by pat_completeness auto
termination
  by (relation "measure (\<lambda>(sep, cur, s). length s)") auto

definition split_str :: "string \<Rightarrow> string \<Rightarrow> string list" where
  "split_str s sep = split_from sep [] s"

subsection \<open>\<open>urllib.parse.unquote\<close>\<close>

text \<open>
  Python's standard library function, as CPython implements it: every maximal run of
  ASCII characters is percent-decoded to bytes (\<open>unquote_to_bytes\<close>: a \<open>%\<close> followed
  by two hexadecimal digits of either case becomes that byte, any other \<open>%\<close> stays),
  and the bytes are decoded as UTF-8 with \<open>errors='replace'\<close>: every ill-formed
  sequence, up to the byte that breaks it, becomes U+FFFD. Characters outside ASCII
  are left as they are; a string without \<open>%\<close> is returned unchanged.
\<close>

definition hexval :: "char \<Rightarrow> nat option" where
  "hexval c =
     (let n = (of_char c :: nat)
      in if 48 \<le> n \<and> n \<le> 57 then Some (n - 48)
         else if 65 \<le> n \<and> n \<le> 70 then Some (n - 55)
         else if 97 \<le> n \<and> n \<le> 102 then Some (n - 87)
         else None)"

fun unquote_to_bytes :: "string \<Rightarrow> string" where
  "unquote_to_bytes (c # h1 # h2 # cs) =
     (if c = CHR ''%''
      then (case (hexval h1, hexval h2) of
              (Some a, Some b) \<Rightarrow> char_of (16 * a + b) # unquote_to_bytes cs
            | _ \<Rightarrow> c # unquote_to_bytes (h1 # h2 # cs))
      else c # unquote_to_bytes (h1 # h2 # cs))"
| "unquote_to_bytes cs = cs"

definition replacement :: string where
  "replacement = [CHR 0xEF, CHR 0xBF, CHR 0xBD]"

definition continuation :: "char \<Rightarrow> bool" where
  "continuation c = (128 \<le> (of_char c :: nat) \<and> (of_char c :: nat) \<le> 191)"

text \<open>The length of the sequence a lead byte announces; 0 for a byte that starts none.\<close>

definition seq_len :: "nat \<Rightarrow> nat" where
  "seq_len n =
     (if n < 128 then 1
      else if 194 \<le> n \<and> n \<le> 223 then 2
      else if 224 \<le> n \<and> n \<le> 239 then 3
      else if 240 \<le> n \<and> n \<le> 244 then 4
      else 0)"

text \<open>The second byte a lead byte admits (no overlong forms, surrogates or values above U+10FFFF).\<close>

definition second_ok :: "nat \<Rightarrow> char \<Rightarrow> bool" where
  "second_ok lead c =
     (let m = (of_char c :: nat)
      in if lead = 224 then 160 \<le> m \<and> m \<le> 191
         else if lead = 237 then 128 \<le> m \<and> m \<le> 159
         else if lead = 240 then 144 \<le> m \<and> m \<le> 191
         else if lead = 244 then 128 \<le> m \<and> m \<le> 143
         else continuation c)"

fun decode_replace :: "string \<Rightarrow> string" where
  "decode_replace [] = []"
| "decode_replace (b # bs) =
     (let k = seq_len (of_char b)
      in if k = 0 then replacement @ decode_replace bs
         else if k = 1 then b # decode_replace bs
         else (case bs of
                 [] \<Rightarrow> replacement
               | c1 # r1 \<Rightarrow>
                   if \<not> second_ok (of_char b) c1 then replacement @ decode_replace bs
                   else if k = 2 then b # c1 # decode_replace r1
                   else (case r1 of
                           [] \<Rightarrow> replacement
                         | c2 # r2 \<Rightarrow>
                             if \<not> continuation c2 then replacement @ decode_replace r1
                             else if k = 3 then b # c1 # c2 # decode_replace r2
                             else (case r2 of
                                     [] \<Rightarrow> replacement
                                   | c3 # r3 \<Rightarrow>
                                       if \<not> continuation c3
                                       then replacement @ decode_replace r2
                                       else b # c1 # c2 # c3 # decode_replace r3))))"

definition is_ascii :: "char \<Rightarrow> bool" where
  "is_ascii c = ((of_char c :: nat) < 128)"

function unquote_parts :: "string \<Rightarrow> string" where
  "unquote_parts [] = []"
| "unquote_parts (c # cs) =
     (if is_ascii c
      then decode_replace (unquote_to_bytes (takeWhile is_ascii (c # cs)))
             @ unquote_parts (dropWhile is_ascii (c # cs))
      else takeWhile (\<lambda>x. \<not> is_ascii x) (c # cs)
             @ unquote_parts (dropWhile (\<lambda>x. \<not> is_ascii x) (c # cs)))"
  by pat_completeness auto
termination
  by (relation "measure length") (auto simp: le_imp_less_Suc length_dropWhile_le)

definition unquote :: "string \<Rightarrow> string" where
  "unquote s = (if CHR ''%'' \<notin> set s then s else unquote_parts s)"

section \<open>Search results and the parsed page\<close>

record SearchResult =
  title :: string
  link :: string
  snippet :: string
  position :: int

text \<open>
  What the source reads from the parsed page, in the terms of the calls it makes.
  \<open>Anchor text href\<close> is an \<open>a\<close> element: \<open>get_text(strip=True)\<close> and the
  \<open>href\<close> attribute (\<open>None\<close> when absent). A \<open>ResultElem\<close> is one element of
  \<open>soup.select(".result")\<close>: first what \<open>select_one(".result__title")\<close> and then
  \<open>find("a")\<close> on it return (\<open>None\<close>: no title element; \<open>Some None\<close>: a title
  element without a link), second the text of \<open>select_one(".result__snippet")\<close> if
  there is one.
\<close>

datatype anchor = Anchor string "string option"

datatype result_elem = ResultElem "anchor option option" "string option"

text \<open>
  The outcome of the request and of the parse (lines 83 to 89 of the source): an
  exception (\<open>CancelledError\<close> when the task is cancelled while it awaits the
  response), or the parsed page: \<open>None\<close> for a page object that is false,
  otherwise the elements of \<open>soup.select(".result")\<close> in document order.
\<close>

datatype fetched = Raises exn | Parsed "result_elem list option"

datatype log_entry = LogInfo string | LogError string

subsection \<open>The loop body\<close>

text \<open>Lines 111 to 113: the clean-up of redirect links. Indexing a list raises \<open>IndexError\<close>.\<close>

definition clean_link :: "string \<Rightarrow> exn + string" where
  "clean_link l =
     (if startswith l ''//duckduckgo.com/l/?uddg=''
      then (case split_str l ''uddg='' of
              _ # v # _ \<Rightarrow>
                (case split_str v ''&'' of
                   [] \<Rightarrow> Inl IndexError
                 | x # _ \<Rightarrow> Inr (unquote x))
            | _ \<Rightarrow> Inl IndexError)
      else Inr l)"

text \<open>
  Lines 96 to 116 for one element: \<open>Inr None\<close> is \<open>continue\<close>, \<open>Inr (Some (t, l, s))\<close>
  the title, link and snippet of the result to append.
\<close>

fun parse_entry :: "result_elem \<Rightarrow> exn + (string \<times> string \<times> string) option" where
  "parse_entry (ResultElem None snippet_elem) = Inr None"
| "parse_entry (ResultElem (Some None) snippet_elem) = Inr None"
| "parse_entry (ResultElem (Some (Some (Anchor text href))) snippet_elem) =
     (let l = (case href of None \<Rightarrow> [] | Some h \<Rightarrow> h)
      in if contains l ''y.js'' then Inr None
         else (case clean_link l of
                 Inl e \<Rightarrow> Inl e
               | Inr l' \<Rightarrow>
                   Inr (Some (text, l', (case snippet_elem of None \<Rightarrow> [] | Some s \<Rightarrow> s)))))"

subsection \<open>The loop\<close>

text \<open>Lines 95 to 128: \<open>scan max_results elems results\<close> runs the loop over the remaining elements.\<close>

fun scan :: "int \<Rightarrow> result_elem list \<Rightarrow> SearchResult list \<Rightarrow> exn + SearchResult list" where
  "scan max_results [] results = Inr results"
| "scan max_results (elem # elems) results =
     (case parse_entry elem of
        Inl e \<Rightarrow> Inl e
      | Inr None \<Rightarrow> scan max_results elems results
      | Inr (Some (t, l, s)) \<Rightarrow>
          (let results' = results @
                 [\<lparr>title = t, link = l, snippet = s, position = int (length results) + 1\<rparr>]
           in if int (length results') \<ge> max_results then Inr results'
              else scan max_results elems results'))"

section \<open>Decimal numbers\<close>

text \<open>Python's \<open>str\<close> of an integer, as the f-strings use it.\<close>

fun digits :: "nat \<Rightarrow> string" where
  "digits n = (if n < 10 then [char_of (48 + n)] else digits (n div 10) @ [char_of (48 + n mod 10)])"

declare digits.simps [simp del]

definition str_int :: "int \<Rightarrow> string" where
  "str_int i = (if i < 0 then CHR ''-'' # digits (nat (- i)) else digits (nat i))"

section \<open>DuckDuckGoSearcher\<close>

record DuckDuckGoSearcher =
  rate_limiter :: RateLimiter

text \<open>
  The context \<open>ctx\<close> that \<open>search\<close> logs to: \<open>await ctx.info(msg)\<close> and
  \<open>await ctx.error(msg)\<close> either return (\<open>None\<close>) or raise (\<open>Some e\<close>).
\<close>

record Context =
  info :: "string \<Rightarrow> exn option"
  error :: "string \<Rightarrow> exn option"

text \<open>\<open>str(e)\<close> of an exception.\<close>

fun str_exn :: "exn \<Rightarrow> string" where
  "str_exn TimeoutException = []"
| "str_exn (HTTPError msg) = msg"
| "str_exn IndexError = ''list index out of range''"
| "str_exn (OtherException msg) = msg"
| "str_exn CancelledError = []"

text \<open>
  The \<open>try\<close> block of \<open>search\<close>: the searcher with its limiter updated, the messages
  passed to the context, and the exception raised or the list returned. The time
  slept in \<open>acquire\<close> is not part of the result.
\<close>

definition search_try ::
  "Context \<Rightarrow> DuckDuckGoSearcher \<Rightarrow> int \<Rightarrow> string \<Rightarrow> int \<Rightarrow> fetched
     \<Rightarrow> DuckDuckGoSearcher \<times> log_entry list \<times> (exn + SearchResult list)" where
  "search_try ctx self now query max_results page =
     (case acquire now (rate_limiter self) of
        (Inl e, lim) \<Rightarrow> (self\<lparr>rate_limiter := lim\<rparr>, [], Inl e)
      | (Inr slept, lim) \<Rightarrow>
          (let self' = self\<lparr>rate_limiter := lim\<rparr>;
               searching = ''Searching DuckDuckGo for: '' @ query;
               log1 = [LogInfo searching]
           in case info ctx searching of
                Some e \<Rightarrow> (self', log1, Inl e)
              | None \<Rightarrow>
                  (case page of
                     Raises e \<Rightarrow> (self', log1, Inl e)
                   | Parsed None \<Rightarrow>
                       (case error ctx ''Failed to parse HTML response'' of
                          Some e \<Rightarrow>
                            (self', log1 @ [LogError ''Failed to parse HTML response''], Inl e)
                        | None \<Rightarrow>
                            (self', log1 @ [LogError ''Failed to parse HTML response''], Inr []))
                   | Parsed (Some elems) \<Rightarrow>
                       (case scan max_results elems [] of
                          Inl e \<Rightarrow> (self', log1, Inl e)
                        | Inr results \<Rightarrow>
                            (let found = ''Successfully found ''
                                   @ str_int (int (length results)) @ '' results''
                             in case info ctx found of
                                  Some e \<Rightarrow> (self', log1 @ [LogInfo found], Inl e)
                                | None \<Rightarrow> (self', log1 @ [LogInfo found], Inr results))))))"

text \<open>The message of the handler that catches \<open>e\<close>; the handlers in the order of the source.\<close>

fun handler :: "exn \<Rightarrow> string" where
  "handler TimeoutException = ''Search request timed out''"
| "handler (HTTPError msg) = ''HTTP error occurred: '' @ msg"
| "handler e = ''Unexpected error during search: '' @ str_exn e"

text \<open>
  \<open>search\<close>: an exception of the \<open>try\<close> block that is an \<open>Exception\<close> reaches its
  handler, which awaits \<open>ctx.error\<close> and then returns the empty list; what
  \<open>ctx.error\<close> raises there, and an exception that is no \<open>Exception\<close>, leave
  \<open>search\<close>.
\<close>

definition search ::
  "Context \<Rightarrow> DuckDuckGoSearcher \<Rightarrow> int \<Rightarrow> string \<Rightarrow> int \<Rightarrow> fetched
     \<Rightarrow> DuckDuckGoSearcher \<times> log_entry list \<times> (exn + SearchResult list)" where
  "search ctx self now query max_results page =
     (case search_try ctx self now query max_results page of
        (self', lg, Inr results) \<Rightarrow> (self', lg, Inr results)
      | (self', lg, Inl e) \<Rightarrow>
          if is_Exception e
          then (case error ctx (handler e) of
                  Some e' \<Rightarrow> (self', lg @ [LogError (handler e)], Inl e')
                | None \<Rightarrow> (self', lg @ [LogError (handler e)], Inr []))
          else (self', lg, Inl e))"

text \<open>What \<open>search\<close> does for its caller: it raises an exception or returns a list.\<close>

definition search_outcome ::
  "Context \<Rightarrow> DuckDuckGoSearcher \<Rightarrow> int \<Rightarrow> string \<Rightarrow> int \<Rightarrow> fetched
     \<Rightarrow> exn + SearchResult list" where
  "search_outcome ctx self now query max_results page =
     snd (snd (search ctx self now query max_results page))"

text \<open>A context whose calls return, and one whose \<open>error\<close> raises.\<close>

definition quiet :: Context where
  "quiet = \<lparr>info = (\<lambda>msg. None), error = (\<lambda>msg. None)\<rparr>"


text \<open>
  The list \<open>search\<close> returns under a context whose calls return; no list, here the
  empty one, when \<open>search\<close> raises.
\<close>

definition search_results ::
  "DuckDuckGoSearcher \<Rightarrow> int \<Rightarrow> string \<Rightarrow> int \<Rightarrow> fetched \<Rightarrow> SearchResult list" where
  "search_results self now query max_results page =
     (case search_outcome quiet self now query max_results page of
        Inl e \<Rightarrow> []
      | Inr results \<Rightarrow> results)"

subsection \<open>\<open>format_results_for_llm\<close>\<close>

text \<open>\<open>join sep xs\<close> is Python's \<open>sep.join(xs)\<close>.\<close>

fun join :: "string \<Rightarrow> string list \<Rightarrow> string" where
  "join sep [] = []"
| "join sep [x] = x"
| "join sep (x # y # ys) = x @ sep @ join sep (y # ys)"

text \<open>The \<open>for\<close> loop of lines 61 to 65, appending four lines for each result.\<close>

fun format_loop :: "string list \<Rightarrow> SearchResult list \<Rightarrow> string list" where
  "format_loop output [] = output"
| "format_loop output (result # results) =
     format_loop
       (output @ [str_int (position result) @ ''. '' @ title result]
               @ [''   URL: '' @ link result]
               @ [''   Summary: '' @ snippet result]
               @ [[]])
       results"

definition format_results_for_llm :: "SearchResult list \<Rightarrow> string" where
  "format_results_for_llm results =
     (if results = []
      then ''No results were found for your search query. This could be due to DuckDuckGo's bot detection or the query returned no matches. Please try rephrasing your search or try again in a few minutes.''
      else join ''\<newline>''
             (format_loop
                [''Found '' @ str_int (int (length results)) @ '' search results:\<newline>'']
                results))"

subsection \<open>Construction\<close>

text \<open>\<open>RateLimiter.__init__\<close> and \<open>DuckDuckGoSearcher.__init__\<close>.\<close>

definition RateLimiter_init :: "int \<Rightarrow> RateLimiter" where
  "RateLimiter_init rpm = \<lparr>requests_per_minute = rpm, requests = []\<rparr>"

definition DuckDuckGoSearcher_init :: DuckDuckGoSearcher where
  "DuckDuckGoSearcher_init = \<lparr>rate_limiter = RateLimiter_init 30\<rparr>"

section \<open>Notions used in the statements\<close>

text \<open>
  The title, link and snippet of the elements for which the loop body reaches
  \<open>results.append\<close>, in document order.
\<close>

fun accepted :: "result_elem list \<Rightarrow> (string \<times> string \<times> string) list" where
  "accepted [] = []"
| "accepted (elem # elems) =
     (case parse_entry elem of
        Inr (Some r) \<Rightarrow> r # accepted elems
      | _ \<Rightarrow> accepted elems)"

text \<open>Results built from such triples, with consecutive positions starting after \<open>n\<close>.\<close>

fun numbered :: "nat \<Rightarrow> (string \<times> string \<times> string) list \<Rightarrow> SearchResult list" where
  "numbered n [] = []"
| "numbered n ((t, l, s) # rs) =
     \<lparr>title = t, link = l, snippet = s, position = int n + 1\<rparr> # numbered (Suc n) rs"

text \<open>A result without its position.\<close>

definition core :: "SearchResult \<Rightarrow> string \<times> string \<times> string" where
  "core r = (title r, link r, snippet r)"

text \<open>
  The value of \<open>link\<close> after line 105, for the elements that get that far: the
  \<open>href\<close> of the link of the title, the empty string when the attribute is missing.
\<close>

fun entry_link :: "result_elem \<Rightarrow> string option" where
  "entry_link (ResultElem None snippet_elem) = None"
| "entry_link (ResultElem (Some None) snippet_elem) = None"
| "entry_link (ResultElem (Some (Some (Anchor text href))) snippet_elem) =
     Some (case href of None \<Rightarrow> [] | Some h \<Rightarrow> h)"

definition is_ad :: "result_elem \<Rightarrow> bool" where
  "is_ad elem = (case entry_link elem of None \<Rightarrow> False | Some l \<Rightarrow> contains l ''y.js'')"

text \<open>The elements of the page that was fetched, none when there is no page.\<close>

fun page_elems :: "fetched \<Rightarrow> result_elem list" where
  "page_elems (Parsed (Some elems)) = elems"
| "page_elems page = []"

subsection \<open>An example page\<close>

text \<open>
  Five result elements: a plain link, an ad, an element without title, a redirect link
  without snippet, and another plain link.
\<close>

definition example_elems :: "result_elem list" where
  "example_elems =
     [ResultElem (Some (Some (Anchor ''First'' (Some ''https://one.example/'')))) (Some ''One''),
      ResultElem (Some (Some (Anchor ''Ad'' (Some ''https://duckduckgo.com/y.js?ad=shop.example''))))
        (Some ''Buy''),
      ResultElem None (Some ''No title''),
      ResultElem
        (Some (Some (Anchor ''Second''
           (Some ''//duckduckgo.com/l/?uddg=https%3A%2F%2Freal.example%2Fpage&extra=1''))))
        None,
      ResultElem (Some (Some (Anchor ''Third'' (Some ''https://three.example/'')))) (Some ''Three'')]"

section \<open>Properties of the rate limiter\<close>

text \<open>With a ceiling of at least one the index \<open>self.requests[0]\<close> is in range.\<close>

lemma acquire_positive_ceiling_returns:
  "1 \<le> requests_per_minute self \<Longrightarrow> \<exists>slept self'. acquire now self = (Inr slept, self')"
  by (cases "filter (\<lambda>req. now - req < minute) (requests self)")
     (simp_all add: acquire_def Let_def)

text \<open>A call that returns has appended the clock reading taken on entry, whatever it slept.\<close>

lemma acquire_appends_now:
  "acquire now self = (Inr slept, self') \<Longrightarrow>
     requests self' = filter (\<lambda>req. now - req < minute) (requests self) @ [now]"
  by (cases "filter (\<lambda>req. now - req < minute) (requests self)")
     (auto simp: acquire_def Let_def split: if_splits)

text \<open>
  Claim C1. In any trailing interval of one minute at most \<open>requests_per_minute\<close>
  calls of \<open>acquire\<close> are authorized. The code does not keep this bound. With a
  ceiling of 1 and calls entered at 0 s, 1 s and 60 s, each after the previous one has
  returned, the calls return at 0 s, 60 s and 61 s: two authorizations in the minute
  that ends at 61 s. With the limiter as the searcher constructs it (ceiling 30),
  thirty calls at 0 s, one at 1 s and thirty at 60 s return at 0 s (thirty),
  60 s (thirty) and 61 s: 31 authorizations in the minute that ends at 61 s.
\<close>

theorem acquire_exceeds_ceiling:
  "sequential (RateLimiter_init 1) 0 [0, 1000000, 60000000]
   \<and> authorizations (RateLimiter_init 1) [0, 1000000, 60000000] = [0, 60000000, 61000000]
   \<and> authorized_in_window 61000000
        (authorizations (RateLimiter_init 1) [0, 1000000, 60000000]) = 2
   \<and> sequential (RateLimiter_init 30) 0 (replicate 30 0 @ [1000000] @ replicate 30 60000000)
   \<and> authorizations (RateLimiter_init 30) (replicate 30 0 @ [1000000] @ replicate 30 60000000)
       = replicate 30 0 @ replicate 30 60000000 @ [61000000]
   \<and> authorized_in_window 61000000
        (authorizations (RateLimiter_init 30)
           (replicate 30 0 @ [1000000] @ replicate 30 60000000)) = 31"
  by code_simp

text \<open>
  Claim C2. The timestamp \<open>acquire\<close> appends is the instant of authorization, taken
  after any wait. The code appends the clock reading taken on entry: a call entered at
  1 s on a full limiter whose oldest entry is 0 s sleeps 59 s, returns at 60 s and
  records 1 s.
\<close>

theorem acquire_records_entry_time:
  "acquire 1000000 \<lparr>requests_per_minute = 1, requests = [0]\<rparr>
     = (Inr 59000000, \<lparr>requests_per_minute = 1, requests = [0, 1000000]\<rparr>)"
  by (simp add: acquire_def minute_def)

text \<open>
  Claim C4. \<open>acquire\<close> cannot fail; with a ceiling of at most 0 every call waits,
  the first one included. In the code the first call on a limiter with ceiling 0
  raises \<open>IndexError\<close>: the pruned list is empty, its length reaches the ceiling, and
  \<open>self.requests[0]\<close> is evaluated.
\<close>

theorem acquire_zero_ceiling_raises:
  "acquire 0 \<lparr>requests_per_minute = 0, requests = []\<rparr>
     = (Inl IndexError, \<lparr>requests_per_minute = 0, requests = []\<rparr>)"
  by (simp add: acquire_def)

section \<open>Properties of the string operations\<close>

lemma startswith_append: "startswith (p @ r) p"
  by (induction p) auto

lemma startswith_iff: "startswith s p \<longleftrightarrow> (\<exists>r. s = p @ r)"
proof
  show "startswith s p \<Longrightarrow> \<exists>r. s = p @ r"
    by (induction s p rule: startswith.induct) auto
qed (auto simp: startswith_append)

lemma split_from_not_Nil: "split_from sep cur s \<noteq> []"
  by (induction sep cur s rule: split_from.induct) auto

lemma split_wrapper:
  "split_str (''//duckduckgo.com/l/?uddg='' @ rest) ''uddg=''
     = ''//duckduckgo.com/l/?'' # split_from ''uddg='' [] rest"
  by (simp add: split_str_def)

lemma split_from_single:
  "split_from [a] cur s
     = (cur @ takeWhile (\<lambda>c. c \<noteq> a) s)
       # (case dropWhile (\<lambda>c. c \<noteq> a) s of [] \<Rightarrow> [] | _ # r \<Rightarrow> split_from [a] [] r)"
  by (induction s arbitrary: cur) auto

lemma hd_split_single: "hd (split_str s [a]) = takeWhile (\<lambda>c. c \<noteq> a) s"
  by (simp add: split_str_def split_from_single[of a "[]" s])

lemma split_from_absent: "\<not> contains s sep \<Longrightarrow> split_from sep cur s = [cur @ s]"
  by (induction s arbitrary: cur) auto

section \<open>Properties of the loop\<close>

text \<open>
  On a link with the redirect prefix both indexings are in range: the clean-up
  percent-decodes what stands between the prefix and the next \<open>uddg=\<close>, up to the
  first \<open>&\<close>.
\<close>

lemma clean_link_wrapper:
  "clean_link (''//duckduckgo.com/l/?uddg='' @ rest)
     = Inr (unquote (takeWhile (\<lambda>c. c \<noteq> CHR ''&'') (hd (split_str rest ''uddg=''))))"
proof -
  obtain v vs where v: "split_from ''uddg='' [] rest = v # vs"
    using split_from_not_Nil[of "''uddg=''" "[]" rest]
    by (cases "split_from ''uddg='' [] rest") auto
  obtain x xs where x: "split_str v ''&'' = x # xs"
    using split_from_not_Nil[of "''&''" "[]" v]
    by (cases "split_str v ''&''") (auto simp: split_str_def)
  have "x = takeWhile (\<lambda>c. c \<noteq> CHR ''&'') v"
    using hd_split_single[of v "CHR ''&''"] x by simp
  then show ?thesis
    using v x by (simp add: clean_link_def startswith_append split_wrapper split_str_def)
qed

lemma clean_link_other:
  "\<not> startswith l ''//duckduckgo.com/l/?uddg='' \<Longrightarrow> clean_link l = Inr l"
  by (simp add: clean_link_def)

lemma clean_link_returns: "\<exists>l'. clean_link l = Inr l'"
proof (cases "startswith l ''//duckduckgo.com/l/?uddg=''")
  case True
  then obtain rest where "l = ''//duckduckgo.com/l/?uddg='' @ rest"
    by (auto simp: startswith_iff)
  then show ?thesis using clean_link_wrapper[of rest] by simp
next
  case False
  then show ?thesis by (simp add: clean_link_other)
qed

lemma parse_entry_returns: "\<exists>r. parse_entry elem = Inr r"
proof (cases elem)
  case (ResultElem t s)
  show ?thesis
  proof (cases t)
    case None
    with ResultElem show ?thesis by simp
  next
    case (Some a)
    show ?thesis
    proof (cases a)
      case None
      with Some ResultElem show ?thesis by simp
    next
      case (Some an)
      obtain tx href where an: "an = Anchor tx href" by (cases an)
      obtain l' where "clean_link (case href of None \<Rightarrow> [] | Some h \<Rightarrow> h) = Inr l'"
        using clean_link_returns by blast
      with an Some \<open>t = Some a\<close> ResultElem show ?thesis by (simp add: Let_def)
    qed
  qed
qed

lemma length_numbered [simp]: "length (numbered n rs) = length rs"
  by (induction n rs rule: numbered.induct) auto

text \<open>
  The loop appends the accepted elements in document order, numbered on from the
  results it already has, and stops after the append that reaches \<open>max_results\<close>:
  at the earliest after one append.
\<close>

lemma scan_acc:
  "scan m elems acc
     = Inr (acc @ numbered (length acc)
                    (take (max 1 (nat (m - int (length acc)))) (accepted elems)))"
proof (induction elems arbitrary: acc)
  case Nil
  then show ?case by simp
next
  case (Cons elem elems)
  obtain r where r: "parse_entry elem = Inr r"
    using parse_entry_returns by blast
  show ?case
  proof (cases r)
    case None
    with r Cons show ?thesis by simp
  next
    case (Some tls)
    obtain t l s where tls: "tls = (t, l, s)" by (cases tls)
    let ?acc' = "acc @ [\<lparr>title = t, link = l, snippet = s, position = int (length acc) + 1\<rparr>]"
    show ?thesis
    proof (cases "m \<le> int (length ?acc')")
      case True
      then have "max 1 (nat (m - int (length acc))) = 1" by auto
      with True r Some tls show ?thesis by (simp add: Let_def)
    next
      case False
      then obtain k where k: "nat (m - int (length acc)) = Suc (Suc k)"
        by (cases "nat (m - int (length acc))"; cases "nat (m - int (length acc)) - 1") auto
      then have k': "nat (m - int (length ?acc')) = Suc k" by auto
      show ?thesis
        using False r Some tls k Cons.IH[of ?acc'] k'
        by (simp add: Let_def)
    qed
  qed
qed

lemma core_numbered: "map core (numbered n rs) = rs"
  by (induction n rs rule: numbered.induct) (auto simp: core_def)

lemma position_numbered:
  "map position (numbered n rs) = map int [Suc n ..< Suc n + length rs]"
proof (induction n rs rule: numbered.induct)
  case (1 n)
  then show ?case by simp
next
  case (2 n t l s rs)
  have "[Suc n ..< Suc n + length ((t, l, s) # rs)]
          = Suc n # [Suc (Suc n) ..< Suc (Suc n) + length rs]"
    by (subst upt_rec) simp
  with 2 show ?case by simp
qed

lemma accepted_no_ads: "accepted (filter (\<lambda>e. \<not> is_ad e) elems) = accepted elems"
proof (induction elems)
  case Nil
  then show ?case by simp
next
  case (Cons elem elems)
  have "is_ad elem \<Longrightarrow> parse_entry elem = Inr None"
    by (cases elem rule: entry_link.cases) (auto simp: is_ad_def)
  with Cons show ?case by (auto split: sum.splits option.splits)
qed

lemma accepted_origin:
  "(t, l, s) \<in> set (accepted elems) \<Longrightarrow>
     \<exists>elem \<in> set elems. \<exists>l0. entry_link elem = Some l0 \<and> \<not> contains l0 ''y.js''
        \<and> clean_link l0 = Inr l"
proof (induction elems)
  case Nil
  then show ?case by simp
next
  case (Cons elem elems)
  show ?case
  proof (cases "parse_entry elem = Inr (Some (t, l, s))")
    case True
    then have "\<exists>l0. entry_link elem = Some l0 \<and> \<not> contains l0 ''y.js'' \<and> clean_link l0 = Inr l"
      by (cases elem rule: entry_link.cases) (auto simp: Let_def split: if_splits sum.splits)
    then show ?thesis by auto
  next
    case False
    with Cons.prems have "(t, l, s) \<in> set (accepted elems)"
      by (auto split: sum.splits option.splits)
    with Cons.IH show ?thesis by auto
  qed
qed

section \<open>Properties of \<open>search\<close>\<close>

text \<open>
  What \<open>search\<close> returns: nothing when \<open>acquire\<close> raises, when the request raises or
  when there is no page; otherwise the accepted elements of the page, numbered from 1,
  up to \<open>max_results\<close> of them and at least one if there is one.
\<close>

lemma search_results_eq:
  "search_results self now q m page
     = (case fst (acquire now (rate_limiter self)) of
          Inl e \<Rightarrow> []
        | Inr slept \<Rightarrow> numbered 0 (take (max 1 (nat m)) (accepted (page_elems page))))"
proof (cases "acquire now (rate_limiter self)")
  case (Pair out lim)
  show ?thesis
  proof (cases out)
    case (Inl e)
    with Pair show ?thesis
      by (simp add: search_results_def search_outcome_def search_def search_try_def quiet_def)
  next
    case (Inr slept)
    show ?thesis
    proof (cases page)
      case (Raises e)
      with Pair Inr show ?thesis
        by (simp add: search_results_def search_outcome_def search_def search_try_def quiet_def)
    next
      case (Parsed p)
      with Pair Inr show ?thesis
        by (cases p)
           (simp_all add: search_results_def search_outcome_def search_def search_try_def
                          quiet_def scan_acc)
    qed
  qed
qed


lemma acquire_init: "fst (acquire now (rate_limiter DuckDuckGoSearcher_init)) = Inr 0"
  by (simp add: acquire_def DuckDuckGoSearcher_init_def RateLimiter_init_def)

lemma example_accepted:
  "accepted example_elems
     = [(''First'', ''https://one.example/'', ''One''),
        (''Second'', ''https://real.example/page'', []),
        (''Third'', ''https://three.example/'', ''Three'')]"
  by code_simp

lemma example_search_2:
  "search_results DuckDuckGoSearcher_init 0 ''q'' 2 (Parsed (Some example_elems))
     = [\<lparr>title = ''First'', link = ''https://one.example/'', snippet = ''One'', position = 1\<rparr>,
        \<lparr>title = ''Second'', link = ''https://real.example/page'', snippet = [], position = 2\<rparr>]"
  by code_simp

lemma example_search_0:
  "search_results DuckDuckGoSearcher_init 0 ''q'' 0 (Parsed (Some example_elems))
     = [\<lparr>title = ''First'', link = ''https://one.example/'', snippet = ''One'', position = 1\<rparr>]"
  by code_simp




text \<open>
  Claim C5. For a positive \<open>max_results\<close> and every page, \<open>search\<close> returns at most
  \<open>max_results\<close> results, their positions are 1, 2, ... up to their number, and
  without the positions they are a prefix of the accepted elements in document order:
  the first \<open>max_results\<close> of them when \<open>acquire\<close> has returned and there is a page.
\<close>

theorem search_bounded_numbered_in_order:
  assumes "0 < max_results"
  shows "length (search_results self now query max_results page) \<le> nat max_results
       \<and> map position (search_results self now query max_results page)
           = map int [1 ..< Suc (length (search_results self now query max_results page))]
       \<and> map core (search_results self now query max_results page)
           = take (length (search_results self now query max_results page))
                  (accepted (page_elems page))
       \<and> (fst (acquire now (rate_limiter self)) = Inr slept \<longrightarrow>
            map core (search_results self now query max_results (Parsed (Some elems)))
              = take (nat max_results) (accepted elems))"
proof (cases "fst (acquire now (rate_limiter self))")
  case (Inl e)
  then show ?thesis by (simp add: search_results_eq)
next
  case (Inr w)
  from assms have m: "max 1 (nat max_results) = nat max_results" by auto
  have rs: "search_results self now query max_results pg
              = numbered 0 (take (nat max_results) (accepted (page_elems pg)))" for pg
    using Inr m by (simp add: search_results_eq)
  show ?thesis
    by (simp add: rs core_numbered position_numbered min_def)
qed

theorem search_bounded_numbered_in_order_witness:
  "(0::int) < 2
   \<and> fst (acquire 0 (rate_limiter DuckDuckGoSearcher_init)) = Inr 0
   \<and> length (search_results DuckDuckGoSearcher_init 0 ''q'' 2 (Parsed (Some example_elems))) = 2
   \<and> map position (search_results DuckDuckGoSearcher_init 0 ''q'' 2 (Parsed (Some example_elems)))
       = [1, 2]
   \<and> map core (search_results DuckDuckGoSearcher_init 0 ''q'' 2 (Parsed (Some example_elems)))
       = take 2 (accepted example_elems)"
proof -
  have h: "(0::int) < 2" by simp
  have a: "fst (acquire 0 (rate_limiter DuckDuckGoSearcher_init)) = Inr 0"
    by (rule acquire_init)
  have "map core (search_results DuckDuckGoSearcher_init 0 ''q'' 2 (Parsed (Some example_elems)))
       = take (nat 2) (accepted example_elems)"
    using search_bounded_numbered_in_order
            [OF h, of DuckDuckGoSearcher_init 0 "''q''" "Parsed (Some example_elems)" 0 example_elems]
          a
    by blast
  with a show ?thesis by (simp add: example_search_2)
qed

text \<open>
  Claim C9. Called with \<open>max_results \<le> 0\<close> on a page with at least one accepted
  element, \<open>search\<close> returns exactly one result, the first accepted element: the loop
  compares the length with \<open>max_results\<close> only after an append.
\<close>

theorem search_nonpositive_max_returns_one:
  assumes "max_results \<le> 0"
    and "accepted elems \<noteq> []"
    and "fst (acquire now (rate_limiter self)) = Inr slept"
  shows "length (search_results self now query max_results (Parsed (Some elems))) = 1
       \<and> map core (search_results self now query max_results (Parsed (Some elems)))
           = [hd (accepted elems)]"
proof -
  from assms(1) have m: "max 1 (nat max_results) = 1" by auto
  have rs: "search_results self now query max_results (Parsed (Some elems))
              = numbered 0 (take 1 (accepted elems))"
    using assms(3) m by (simp add: search_results_eq)
  from assms(2) obtain r rest where "accepted elems = r # rest"
    by (cases "accepted elems") auto
  then show ?thesis
    by (simp add: rs core_numbered)
qed

theorem search_nonpositive_max_returns_one_witness:
  "(0::int) \<le> 0 \<and> accepted example_elems \<noteq> []
   \<and> fst (acquire 0 (rate_limiter DuckDuckGoSearcher_init)) = Inr 0
   \<and> length (search_results DuckDuckGoSearcher_init 0 ''q'' 0 (Parsed (Some example_elems))) = 1
   \<and> map core (search_results DuckDuckGoSearcher_init 0 ''q'' 0 (Parsed (Some example_elems)))
       = [(''First'', ''https://one.example/'', ''One'')]"
proof -
  have h: "(0::int) \<le> 0" by simp
  have n: "accepted example_elems \<noteq> []" by (simp add: example_accepted)
  have a: "fst (acquire 0 (rate_limiter DuckDuckGoSearcher_init)) = Inr 0"
    by (rule acquire_init)
  show ?thesis
    using search_nonpositive_max_returns_one [OF h n a, of "''q''"] n a
    by (simp add: example_accepted)
qed

text \<open>
  The ad test of line 108 reads the link before the clean-up: percent-decoding a
  redirect link can produce the marker. The one element below is not skipped, and
  the link of its result contains \<open>y.js\<close>.
\<close>

theorem ad_marker_after_unwrapping_counterexample:
  "search_results DuckDuckGoSearcher_init 0 ''q'' 10
     (Parsed (Some [ResultElem
        (Some (Some (Anchor ''Script''
           (Some ''//duckduckgo.com/l/?uddg=https%3A%2F%2Fcdn.example%2Fy%2Ejs''))))
        None]))
     = [\<lparr>title = ''Script'', link = ''https://cdn.example/y.js'', snippet = [], position = 1\<rparr>]
   \<and> contains ''https://cdn.example/y.js'' ''y.js''"
  by code_simp

text \<open>
  Claim C6, amended. For every page, an element whose link as read from the page
  contains \<open>y.js\<close> is skipped wherever it stands, and it counts neither toward
  \<open>max_results\<close> nor toward the positions: \<open>search\<close> returns what it returns on the
  page without these elements. The link of every result is the cleaned-up link of an
  element whose link as read from the page does not contain \<open>y.js\<close>.
\<close>

theorem ad_entries_skipped:
  "(is_ad elem \<longrightarrow> parse_entry elem = Inr None)
   \<and> search_results self now query max_results (Parsed (Some elems))
       = search_results self now query max_results
           (Parsed (Some (filter (\<lambda>e. \<not> is_ad e) elems)))
   \<and> (\<forall>r \<in> set (search_results self now query max_results (Parsed (Some elems))).
         \<exists>el \<in> set elems. \<exists>l. entry_link el = Some l \<and> \<not> contains l ''y.js''
            \<and> clean_link l = Inr (link r))"
proof -
  have 1: "is_ad elem \<longrightarrow> parse_entry elem = Inr None"
    by (cases elem rule: entry_link.cases) (auto simp: is_ad_def)
  have 2: "search_results self now query max_results (Parsed (Some elems))
       = search_results self now query max_results
           (Parsed (Some (filter (\<lambda>e. \<not> is_ad e) elems)))"
    by (cases "fst (acquire now (rate_limiter self))")
       (simp_all add: search_results_eq accepted_no_ads)
  have 3: "\<exists>el \<in> set elems. \<exists>l. entry_link el = Some l \<and> \<not> contains l ''y.js''
            \<and> clean_link l = Inr (link r)"
    if r: "r \<in> set (search_results self now query max_results (Parsed (Some elems)))" for r
  proof -
    from r obtain k where "r \<in> set (numbered 0 (take k (accepted elems)))"
      by (auto simp: search_results_eq split: sum.splits)
    then have "core r \<in> set (map core (numbered 0 (take k (accepted elems))))"
      by simp
    then have "core r \<in> set (accepted elems)"
      by (auto simp: core_numbered dest: in_set_takeD)
    then show ?thesis
      using accepted_origin[of "title r" "link r" "snippet r" elems] by (simp add: core_def)
  qed
  from 1 2 3 show ?thesis by blast
qed

theorem ad_entries_skipped_witness:
  "is_ad (ResultElem (Some (Some (Anchor ''Ad'' (Some ''https://duckduckgo.com/y.js?ad=shop.example''))))
        (Some ''Buy''))
   \<and> parse_entry (ResultElem (Some (Some (Anchor ''Ad'' (Some ''https://duckduckgo.com/y.js?ad=shop.example''))))
        (Some ''Buy'')) = Inr None
   \<and> search_results DuckDuckGoSearcher_init 0 ''q'' 2 (Parsed (Some example_elems))
       = search_results DuckDuckGoSearcher_init 0 ''q'' 2
           (Parsed (Some (filter (\<lambda>e. \<not> is_ad e) example_elems)))
   \<and> \<lparr>title = ''First'', link = ''https://one.example/'', snippet = ''One'', position = 1\<rparr>
       \<in> set (search_results DuckDuckGoSearcher_init 0 ''q'' 2 (Parsed (Some example_elems)))
   \<and> (\<exists>el \<in> set example_elems. \<exists>l. entry_link el = Some l \<and> \<not> contains l ''y.js''
         \<and> clean_link l = Inr ''https://one.example/'')"
proof -
  let ?ad = "ResultElem (Some (Some (Anchor ''Ad'' (Some ''https://duckduckgo.com/y.js?ad=shop.example''))))
        (Some ''Buy'')"
  let ?r = "\<lparr>title = ''First'', link = ''https://one.example/'', snippet = ''One'', position = 1\<rparr>"
  note inst = ad_entries_skipped [of ?ad DuckDuckGoSearcher_init 0 "''q''" 2 example_elems]
  have ad: "is_ad ?ad" by code_simp
  have r: "?r \<in> set (search_results DuckDuckGoSearcher_init 0 ''q'' 2 (Parsed (Some example_elems)))"
    by (simp add: example_search_2)
  from inst r have "\<exists>el \<in> set example_elems. \<exists>l. entry_link el = Some l \<and> \<not> contains l ''y.js''
         \<and> clean_link l = Inr (link ?r)"
    by blast
  with inst ad r show ?thesis by simp
qed

text \<open>A page with a single accepted element gives that element, whatever \<open>max_results\<close> is.\<close>

lemma search_single:
  assumes "fst (acquire now (rate_limiter self)) = Inr slept"
    and "parse_entry elem = Inr (Some (t, l, s))"
  shows "search_results self now query max_results (Parsed (Some [elem]))
           = [\<lparr>title = t, link = l, snippet = s, position = 1\<rparr>]"
proof -
  have "take (max 1 (nat max_results)) [(t, l, s)] = [(t, l, s)]"
    by (simp add: take_Cons')
  with assms show ?thesis by (simp add: search_results_eq)
qed

text \<open>
  The clean-up of line 112 tests for the prefix \<open>//duckduckgo.com/l/?uddg=\<close>: the
  redirect link of another host is returned as it is.
\<close>

theorem provider_link_not_unwrapped_counterexample:
  "search_results DuckDuckGoSearcher_init 0 ''q'' 10
     (Parsed (Some [ResultElem
        (Some (Some (Anchor ''Real''
           (Some ''//provider.example/l/?uddg=https%3A%2F%2Freal.example%2Fpage&extra=1''))))
        None]))
     = [\<lparr>title = ''Real'',
         link = ''//provider.example/l/?uddg=https%3A%2F%2Freal.example%2Fpage&extra=1'',
         snippet = [], position = 1\<rparr>]
   \<and> ''//provider.example/l/?uddg=https%3A%2F%2Freal.example%2Fpage&extra=1''
       \<noteq> ''https://real.example/page''"
  by code_simp

text \<open>
  Claim C7, amended. A link that starts with \<open>//duckduckgo.com/l/?uddg=\<close> and is
  not skipped as an ad is returned unwrapped: what follows the prefix, cut at the
  next \<open>uddg=\<close> if there is one and then at the first \<open>&\<close>, percent-decoded. In
  particular \<open>//duckduckgo.com/l/?uddg=https%3A%2F%2Freal.example%2Fpage&extra=1\<close>
  unwraps to \<open>https://real.example/page\<close>.
\<close>

theorem redirect_links_unwrapped:
  assumes "\<not> contains (''//duckduckgo.com/l/?uddg='' @ rest) ''y.js''"
  shows "parse_entry (ResultElem (Some (Some (Anchor t (Some (''//duckduckgo.com/l/?uddg='' @ rest)))))
                        snippet_elem)
           = Inr (Some (t,
                   unquote (takeWhile (\<lambda>c. c \<noteq> CHR ''&'') (hd (split_str rest ''uddg=''))),
                   (case snippet_elem of None \<Rightarrow> [] | Some s \<Rightarrow> s)))
       \<and> (\<not> contains rest ''uddg='' \<longrightarrow>
            hd (split_str rest ''uddg='') = rest)
       \<and> (fst (acquire now (rate_limiter self)) = Inr slept \<longrightarrow>
            map link (search_results self now query max_results
              (Parsed (Some [ResultElem
                 (Some (Some (Anchor t (Some (''//duckduckgo.com/l/?uddg='' @ rest)))))
                 snippet_elem])))
              = [unquote (takeWhile (\<lambda>c. c \<noteq> CHR ''&'') (hd (split_str rest ''uddg='')))])"
proof -
  let ?elem = "ResultElem (Some (Some (Anchor t (Some (''//duckduckgo.com/l/?uddg='' @ rest)))))
                 snippet_elem"
  let ?l = "unquote (takeWhile (\<lambda>c. c \<noteq> CHR ''&'') (hd (split_str rest ''uddg='')))"
  have p: "parse_entry ?elem
             = Inr (Some (t, ?l, (case snippet_elem of None \<Rightarrow> [] | Some s \<Rightarrow> s)))"
    using assms clean_link_wrapper[of rest] by (simp del: contains.simps)
  have h: "\<not> contains rest ''uddg='' \<longrightarrow> hd (split_str rest ''uddg='') = rest"
    by (simp add: split_str_def split_from_absent)
  have s: "fst (acquire now (rate_limiter self)) = Inr slept \<longrightarrow>
            map link (search_results self now query max_results (Parsed (Some [?elem]))) = [?l]"
    using search_single[OF _ p] by simp
  from p h s show ?thesis by blast
qed

theorem redirect_links_unwrapped_witness:
  "\<not> contains (''//duckduckgo.com/l/?uddg='' @ ''https%3A%2F%2Freal.example%2Fpage&extra=1'') ''y.js''
   \<and> \<not> contains ''https%3A%2F%2Freal.example%2Fpage&extra=1'' ''uddg=''
   \<and> fst (acquire 0 (rate_limiter DuckDuckGoSearcher_init)) = Inr 0
   \<and> map link (search_results DuckDuckGoSearcher_init 0 ''q'' 10
        (Parsed (Some [ResultElem
           (Some (Some (Anchor ''Real''
              (Some (''//duckduckgo.com/l/?uddg='' @ ''https%3A%2F%2Freal.example%2Fpage&extra=1'')))))
           None])))
       = [''https://real.example/page'']"
proof -
  let ?rest = "''https%3A%2F%2Freal.example%2Fpage&extra=1''"
  have c: "\<not> contains (''//duckduckgo.com/l/?uddg='' @ ?rest) ''y.js''" by code_simp
  have u: "\<not> contains ?rest ''uddg=''" by code_simp
  have a: "fst (acquire 0 (rate_limiter DuckDuckGoSearcher_init)) = Inr 0"
    by (rule acquire_init)
  have e: "unquote (takeWhile (\<lambda>c. c \<noteq> CHR ''&'') ?rest) = ''https://real.example/page''"
    by code_simp
  note inst = redirect_links_unwrapped
                [OF c, of "''Real''" None 0 DuckDuckGoSearcher_init 0 "''q''" 10]
  from inst u have "hd (split_str ?rest ''uddg='') = ?rest" by blast
  moreover from inst a have "map link (search_results DuckDuckGoSearcher_init 0 ''q'' 10
        (Parsed (Some [ResultElem
           (Some (Some (Anchor ''Real'' (Some (''//duckduckgo.com/l/?uddg='' @ ?rest))))) None])))
       = [unquote (takeWhile (\<lambda>c. c \<noteq> CHR ''&'') (hd (split_str ?rest ''uddg='')))]"
    by blast
  ultimately show ?thesis using c u a e by (simp only: simp_thms)
qed

text \<open>
  A link without the prefix is not returned at all when it contains \<open>y.js\<close>: the
  element is skipped at line 108.
\<close>

theorem other_link_with_marker_counterexample:
  "\<not> startswith ''https://duckduckgo.com/l/?uddg=https%3A%2F%2Fcdn.example%2Fjquery.js''
        ''//duckduckgo.com/l/?uddg=''
   \<and> search_results DuckDuckGoSearcher_init 0 ''q'' 10
        (Parsed (Some [ResultElem
           (Some (Some (Anchor ''jQuery''
              (Some ''https://duckduckgo.com/l/?uddg=https%3A%2F%2Fcdn.example%2Fjquery.js''))))
           None]))
       = []"
  by code_simp

text \<open>
  Claim C10, amended. The unwrapping is applied only to links that start with the exact
  prefix \<open>//duckduckgo.com/l/?uddg=\<close>: any other link that is not skipped as an ad
  (does not contain \<open>y.js\<close>), such as \<open>https://duckduckgo.com/l/?uddg=...\<close> or
  \<open>//provider.example/l/?uddg=...\<close>, is returned verbatim, still wrapped.
\<close>

theorem other_links_verbatim:
  assumes "\<not> startswith l ''//duckduckgo.com/l/?uddg=''"
    and "\<not> contains l ''y.js''"
  shows "clean_link l = Inr l
       \<and> parse_entry (ResultElem (Some (Some (Anchor t (Some l)))) snippet_elem)
           = Inr (Some (t, l, (case snippet_elem of None \<Rightarrow> [] | Some s \<Rightarrow> s)))
       \<and> (fst (acquire now (rate_limiter self)) = Inr slept \<longrightarrow>
            map link (search_results self now query max_results
              (Parsed (Some [ResultElem (Some (Some (Anchor t (Some l)))) snippet_elem])))
              = [l])"
proof -
  have c: "clean_link l = Inr l"
    using assms(1) by (rule clean_link_other)
  have p: "parse_entry (ResultElem (Some (Some (Anchor t (Some l)))) snippet_elem)
           = Inr (Some (t, l, (case snippet_elem of None \<Rightarrow> [] | Some s \<Rightarrow> s)))"
    using assms(2) c by simp
  have s: "fst (acquire now (rate_limiter self)) = Inr slept \<longrightarrow>
            map link (search_results self now query max_results
              (Parsed (Some [ResultElem (Some (Some (Anchor t (Some l)))) snippet_elem])))
              = [l]"
    using search_single[OF _ p] by simp
  from c p s show ?thesis by blast
qed

theorem other_links_verbatim_witness:
  "\<not> startswith ''https://duckduckgo.com/l/?uddg=https%3A%2F%2Freal.example%2Fpage''
        ''//duckduckgo.com/l/?uddg=''
   \<and> \<not> contains ''https://duckduckgo.com/l/?uddg=https%3A%2F%2Freal.example%2Fpage'' ''y.js''
   \<and> fst (acquire 0 (rate_limiter DuckDuckGoSearcher_init)) = Inr 0
   \<and> map link (search_results DuckDuckGoSearcher_init 0 ''q'' 10
        (Parsed (Some [ResultElem
           (Some (Some (Anchor ''Real''
              (Some ''https://duckduckgo.com/l/?uddg=https%3A%2F%2Freal.example%2Fpage''))))
           None])))
       = [''https://duckduckgo.com/l/?uddg=https%3A%2F%2Freal.example%2Fpage'']
   \<and> clean_link ''//provider.example/l/?uddg=https%3A%2F%2Freal.example%2Fpage''
       = Inr ''//provider.example/l/?uddg=https%3A%2F%2Freal.example%2Fpage''"
proof -
  let ?l = "''https://duckduckgo.com/l/?uddg=https%3A%2F%2Freal.example%2Fpage''"
  let ?m = "''//provider.example/l/?uddg=https%3A%2F%2Freal.example%2Fpage''"
  have p: "\<not> startswith ?l ''//duckduckgo.com/l/?uddg=''" by code_simp
  have c: "\<not> contains ?l ''y.js''" by code_simp
  have p': "\<not> startswith ?m ''//duckduckgo.com/l/?uddg=''" by code_simp
  have c': "\<not> contains ?m ''y.js''" by code_simp
  have a: "fst (acquire 0 (rate_limiter DuckDuckGoSearcher_init)) = Inr 0"
    by (rule acquire_init)
  from other_links_verbatim [OF p c, of "''Real''" None 0 DuckDuckGoSearcher_init 0 "''q''" 10] a
  have 1: "map link (search_results DuckDuckGoSearcher_init 0 ''q'' 10
        (Parsed (Some [ResultElem (Some (Some (Anchor ''Real'' (Some ?l)))) None]))) = [?l]"
    by blast
  from other_links_verbatim [OF p' c'] have 2: "clean_link ?m = Inr ?m"
    by blast
  from p c a 1 2 show ?thesis by (simp only: simp_thms)
qed

section \<open>Properties of \<open>format_results_for_llm\<close>\<close>

lemma format_loop_append:
  "format_loop out results
     = out @ concat (map (\<lambda>r. [str_int (position r) @ ''. '' @ title r,
                                    ''   URL: '' @ link r,
                                    ''   Summary: '' @ snippet r,
                                    []]) results)"
  by (induction results arbitrary: out) auto

lemma concat_map_prefixed:
  "concat (map g (concat (map f rs))) = concat (map (\<lambda>r. concat (map g (f r))) rs)"
  by (induction rs) auto

lemma join_Cons: "join sep (x # ys) = x @ concat (map (\<lambda>y. sep @ y) ys)"
  by (induction ys arbitrary: x) auto

lemma str_int_1: "str_int 1 = ''1''"
  by code_simp

lemma str_int_2: "str_int 2 = ''2''"
  by code_simp

text \<open>
  Claim C8. \<open>format_results_for_llm\<close> is total: on the empty list it returns the fixed
  message, on a non-empty list a header with the number of results followed, for each
  result in order, by an empty line and the three lines with position and title, link,
  and snippet; an empty snippet leaves the line \<open>Summary:\<close> in place, empty.
\<close>

theorem format_results_for_llm_report:
  "format_results_for_llm []
     = ''No results were found for your search query. This could be due to DuckDuckGo's bot detection or the query returned no matches. Please try rephrasing your search or try again in a few minutes.''
   \<and> (results \<noteq> [] \<longrightarrow>
        format_results_for_llm results
          = ''Found '' @ str_int (int (length results)) @ '' search results:\<newline>''
            @ concat (map (\<lambda>r. ''\<newline>'' @ str_int (position r) @ ''. '' @ title r
                                @ ''\<newline>   URL: '' @ link r
                                @ ''\<newline>   Summary: '' @ snippet r
                                @ ''\<newline>'') results))
   \<and> format_results_for_llm [\<lparr>title = t, link = l, snippet = [], position = p\<rparr>]
       = ''Found 1 search results:\<newline>\<newline>'' @ str_int p @ ''. '' @ t
         @ ''\<newline>   URL: '' @ l @ ''\<newline>   Summary: \<newline>''"
proof -
  have nonempty: "format_results_for_llm rs
          = ''Found '' @ str_int (int (length rs)) @ '' search results:\<newline>''
            @ concat (map (\<lambda>r. ''\<newline>'' @ str_int (position r) @ ''. '' @ title r
                                @ ''\<newline>   URL: '' @ link r
                                @ ''\<newline>   Summary: '' @ snippet r
                                @ ''\<newline>'') rs)" if "rs \<noteq> []" for rs
    using that
    by (simp add: format_results_for_llm_def format_loop_append join_Cons
                  concat_map_prefixed)
  show ?thesis
    using nonempty[of "[\<lparr>title = t, link = l, snippet = [], position = p\<rparr>]"] nonempty[of results]
    by (simp add: format_results_for_llm_def str_int_1)
qed

theorem format_results_for_llm_report_witness:
  "format_results_for_llm []
     = ''No results were found for your search query. This could be due to DuckDuckGo's bot detection or the query returned no matches. Please try rephrasing your search or try again in a few minutes.''
   \<and> [\<lparr>title = ''First'', link = ''https://one.example/'', snippet = ''One'', position = 1\<rparr>,
       \<lparr>title = ''Second'', link = ''https://real.example/page'', snippet = [], position = 2\<rparr>] \<noteq> []
   \<and> format_results_for_llm
        [\<lparr>title = ''First'', link = ''https://one.example/'', snippet = ''One'', position = 1\<rparr>,
         \<lparr>title = ''Second'', link = ''https://real.example/page'', snippet = [], position = 2\<rparr>]
       = ''Found 2 search results:\<newline>\<newline>1. First\<newline>   URL: https://one.example/\<newline>   Summary: One\<newline>\<newline>2. Second\<newline>   URL: https://real.example/page\<newline>   Summary: \<newline>''
   \<and> format_results_for_llm
        [\<lparr>title = ''Second'', link = ''https://real.example/page'', snippet = [], position = 2\<rparr>]
       = ''Found 1 search results:\<newline>\<newline>2. Second\<newline>   URL: https://real.example/page\<newline>   Summary: \<newline>''"
  using format_results_for_llm_report
          [of "[\<lparr>title = ''First'', link = ''https://one.example/'', snippet = ''One'', position = 1\<rparr>,
                \<lparr>title = ''Second'', link = ''https://real.example/page'', snippet = [], position = 2\<rparr>]"
              "''Second''" "''https://real.example/page''" 2]
  by (simp add: str_int_1 str_int_2)

end
